theory Spec2Isabelle
  imports Complex_Main
begin

section \<open>JavaScript values\<close>

text \<open>
  Data that reaches the program from outside has been decoded from JSON: the arguments of
  a tool call by the stdio transport, the body of a backend response by the HTTP library.
  A decoded number is a finite value or one of the two infinities (a literal too large for
  a double decodes to an infinity); JSON has neither \<open>NaN\<close> nor \<open>undefined\<close>.
  Finite numbers are modelled by their exact value. A value of TypeScript type
  \<open>number\<close> that a caller of the client passes directly may also be \<open>NaN\<close>.
  An absent property, which reads as \<open>undefined\<close>, is \<open>None\<close>.
\<close>

datatype jsonnum = NegInfinity | Finite rat | Infinity

datatype number = NaN | Num jsonnum

datatype json =
    JNull
  | JBool bool
  | JNum jsonnum
  | JStr string
  | JArr "json list"
  | JObj "(string \<times> json) list"

text \<open>Truthiness, as tested by \<open>!x\<close>, \<open>x || y\<close> and \<open>x && y\<close>.\<close>

fun truthy_jsonnum :: "jsonnum \<Rightarrow> bool" where
  "truthy_jsonnum NegInfinity = True"
| "truthy_jsonnum (Finite r) = (r \<noteq> 0)"
| "truthy_jsonnum Infinity = True"

fun truthy_number :: "number option \<Rightarrow> bool" where
  "truthy_number None = False"
| "truthy_number (Some NaN) = False"
| "truthy_number (Some (Num n)) = truthy_jsonnum n"

fun truthy_string :: "string option \<Rightarrow> bool" where
  "truthy_string None = False"
| "truthy_string (Some s) = (s \<noteq> [])"

fun truthy :: "json \<Rightarrow> bool" where
  "truthy JNull = False"
| "truthy (JBool b) = b"
| "truthy (JNum n) = truthy_jsonnum n"
| "truthy (JStr s) = (s \<noteq> [])"
| "truthy (JArr xs) = True"
| "truthy (JObj kvs) = True"

fun typeof :: "json \<Rightarrow> string" where
  "typeof JNull = ''object''"
| "typeof (JBool b) = ''boolean''"
| "typeof (JNum n) = ''number''"
| "typeof (JStr s) = ''string''"
| "typeof (JArr xs) = ''object''"
| "typeof (JObj kvs) = ''object''"

text \<open>
  Reading one of the properties \<open>message\<close>, \<open>query\<close> or \<open>limit\<close>, the only ones this
  program reads from decoded data (by \<open>?.\<close> or by destructuring a value already known to
  be truthy): an object yields the stored value, every other value yields \<open>undefined\<close>.
\<close>

fun get_prop :: "json \<Rightarrow> string \<Rightarrow> json option" where
  "get_prop (JObj kvs) k = map_of kvs k"
| "get_prop v k = None"

text \<open>The comparisons \<open>x < c\<close> and \<open>x > c\<close> of a decoded number with a literal.\<close>

fun num_lt :: "jsonnum \<Rightarrow> rat \<Rightarrow> bool" where
  "num_lt NegInfinity c = True"
| "num_lt (Finite r) c = (r < c)"
| "num_lt Infinity c = False"

fun num_gt :: "jsonnum \<Rightarrow> rat \<Rightarrow> bool" where
  "num_gt NegInfinity c = False"
| "num_gt (Finite r) c = (r > c)"
| "num_gt Infinity c = True"

text \<open>\<open>x || d\<close> for an optional string and for an optional number.\<close>

definition or_string :: "string option \<Rightarrow> string \<Rightarrow> string" where
  "or_string x d = (if truthy_string x then the x else d)"

definition or_number :: "number option \<Rightarrow> number \<Rightarrow> number" where
  "or_number x d = (if truthy_number x then the x else d)"

text \<open>\<open>String(b)\<close> for a boolean.\<close>

definition String_bool :: "bool \<Rightarrow> string" where
  "String_bool b = (if b then ''true'' else ''false'')"

section \<open>Types of types.ts\<close>

record SearchParams =
  q :: string
  limit :: "number option"

record SummarizeParams =
  url :: "string option"
  "text" :: "string option"
  engine :: "string option"
  summary_type :: "string option"
  target_language :: "string option"
  cache :: "bool option"

record FastGPTParams =
  query :: string
  cache :: "bool option"

record EnrichParams =
  q :: string

record KagiConfig =
  apiKey :: "string option"
  baseURL :: "string option"
  timeout :: "number option"

section \<open>The HTTP library\<close>

text \<open>
  A call \<open>client.get(url, {params})\<close> or \<open>client.post(url, data)\<close>. The entries of
  \<open>params\<close> and \<open>data\<close> are listed with their values; \<open>None\<close> is an entry whose value
  is \<open>undefined\<close>.
\<close>

datatype qval = QStr string | QNum number

type_synonym fields = "(string \<times> qval option) list"

datatype http_request = Get string fields | Post string fields

record axios_response =
  status :: nat
  data :: json

text \<open>
  What can be thrown inside the client: a plain \<open>Error\<close>, a \<open>TypeError\<close> of the
  runtime, the HTTP library's error (a message and, when the backend answered, its
  response) and \<open>KagiError\<close> (message, code, details).
\<close>

datatype exn =
    Error string
  | TypeError string
  | AxiosError string "axios_response option"
  | KagiError string "nat option" "json option"

fun get_message :: "exn \<Rightarrow> string" where
  "get_message (Error m) = m"
| "get_message (TypeError m) = m"
| "get_message (AxiosError m r) = m"
| "get_message (KagiError m c d) = m"

fun get_response :: "exn \<Rightarrow> axios_response option" where
  "get_response (AxiosError m r) = r"
| "get_response e = None"

text \<open>
  The conversion of a decoded value to a string, as the constructor of \<open>Error\<close> applies
  it to its argument. A string is itself. An array is the conversions of its elements
  joined by commas, \<open>null\<close> elements being empty. An object has no callable
  \<open>toString\<close> or \<open>valueOf\<close> of its own, since decoded data holds no function: with an own
  property \<open>toString\<close> neither method yields a primitive and the conversion throws a
  \<open>TypeError\<close>; without one, the inherited method yields \<open>[object Object]\<close>. The
  formatting of a number is left to the runtime.
\<close>

fun ToString :: "(jsonnum \<Rightarrow> string) \<Rightarrow> json \<Rightarrow> exn + string"
  and Array_join :: "(jsonnum \<Rightarrow> string) \<Rightarrow> json list \<Rightarrow> exn + string" where
  "ToString f JNull = Inr ''null''"
| "ToString f (JBool b) = Inr (String_bool b)"
| "ToString f (JNum n) = Inr (f n)"
| "ToString f (JStr s) = Inr s"
| "ToString f (JArr xs) = Array_join f xs"
| "ToString f (JObj kvs) =
     (if map_of kvs ''toString'' = None then Inr ''[object Object]''
      else Inl (TypeError ''Cannot convert object to primitive value''))"
| "Array_join f [] = Inr ''''"
| "Array_join f (x # xs) =
     (case (if x = JNull then Inr '''' else ToString f x) of
        Inl err \<Rightarrow> Inl err
      | Inr a \<Rightarrow>
          if xs = [] then Inr a
          else (case Array_join f xs of
                  Inl err \<Rightarrow> Inl err
                | Inr b \<Rightarrow> Inr (a @ '','' @ b)))"

text \<open>
  The world outside the repository: the runtime's formatting of a number, and the outcome
  of sending a request with a given base URL, timeout and headers.
\<close>

record env =
  Number_toString :: "jsonnum \<Rightarrow> string"
  transport :: "string \<Rightarrow> number \<Rightarrow> (string \<times> string) list \<Rightarrow> http_request \<Rightarrow> exn + axios_response"

record AxiosInstance =
  defaults_baseURL :: string
  defaults_timeout :: number
  defaults_headers :: "(string \<times> string) list"
  adapter :: "http_request \<Rightarrow> exn + axios_response"
  interceptors_response ::
    "((axios_response \<Rightarrow> exn + axios_response) \<times> (exn \<Rightarrow> exn + axios_response)) list"

definition axios_create ::
  "env \<Rightarrow> string \<Rightarrow> number \<Rightarrow> (string \<times> string) list \<Rightarrow> AxiosInstance" where
  "axios_create e b t h =
     \<lparr>defaults_baseURL = b, defaults_timeout = t, defaults_headers = h,
      adapter = transport e b t h, interceptors_response = []\<rparr>"

definition interceptors_response_use ::
  "AxiosInstance \<Rightarrow> (axios_response \<Rightarrow> exn + axios_response) \<Rightarrow>
   (exn \<Rightarrow> exn + axios_response) \<Rightarrow> AxiosInstance" where
  "interceptors_response_use c onFulfilled onRejected =
     c\<lparr>interceptors_response := interceptors_response c @ [(onFulfilled, onRejected)]\<rparr>"

text \<open>Each response interceptor is chained as \<open>promise.then(onFulfilled, onRejected)\<close>.\<close>

fun run_interceptors ::
  "((axios_response \<Rightarrow> exn + axios_response) \<times> (exn \<Rightarrow> exn + axios_response)) list \<Rightarrow>
   exn + axios_response \<Rightarrow> exn + axios_response" where
  "run_interceptors [] r = r"
| "run_interceptors ((f, g) # rest) r =
     run_interceptors rest (case r of Inl e \<Rightarrow> g e | Inr x \<Rightarrow> f x)"

text \<open>The state is the list of the requests issued so far, oldest first.\<close>

type_synonym net = "http_request list"

definition AxiosInstance_request ::
  "AxiosInstance \<Rightarrow> http_request \<Rightarrow> net \<Rightarrow> (exn + axios_response) \<times> net" where
  "AxiosInstance_request c req s =
     (run_interceptors (interceptors_response c) (adapter c req), s @ [req])"

definition AxiosInstance_get ::
  "AxiosInstance \<Rightarrow> string \<Rightarrow> fields \<Rightarrow> net \<Rightarrow> (exn + axios_response) \<times> net" where
  "AxiosInstance_get c path params = AxiosInstance_request c (Get path params)"

definition AxiosInstance_post ::
  "AxiosInstance \<Rightarrow> string \<Rightarrow> fields \<Rightarrow> net \<Rightarrow> (exn + axios_response) \<times> net" where
  "AxiosInstance_post c path body = AxiosInstance_request c (Post path body)"

text \<open>
  What goes on the wire: the library leaves out every entry whose value is
  \<open>undefined\<close>, in a query string as in a JSON body.
\<close>

fun transmitted :: "fields \<Rightarrow> (string \<times> qval) list" where
  "transmitted [] = []"
| "transmitted ((k, None) # rest) = transmitted rest"
| "transmitted ((k, Some v) # rest) = (k, v) # transmitted rest"

section \<open>The client: class KagiAPI\<close>

record KagiAPI =
  client :: AxiosInstance

definition DEFAULT_BASE_URL :: string where
  "DEFAULT_BASE_URL = ''https://kagi.com/api/v0''"

definition DEFAULT_TIMEOUT :: number where
  "DEFAULT_TIMEOUT = Num (Finite 30000)"

text \<open>
  \<open>new KagiError(message, code, details)\<close>, where \<open>message\<close> may be any value: the
  constructor of \<open>Error\<close> converts it to a string. The result is what the \<open>throw\<close> of
  the interceptor raises: the new error, or the exception of a failed conversion.
\<close>

definition KagiError_new :: "env \<Rightarrow> json \<Rightarrow> nat option \<Rightarrow> json option \<Rightarrow> exn" where
  "KagiError_new e message code details =
     (case ToString (Number_toString e) message of
        Inr m \<Rightarrow> KagiError m code details
      | Inl x \<Rightarrow> x)"

text \<open>\<open>error.response?.data?.message\<close>.\<close>

definition backend_message :: "exn \<Rightarrow> json option" where
  "backend_message error =
     Option.bind (get_response error) (\<lambda>r. get_prop (data r) ''message'')"

text \<open>The rejection handler of the response interceptor (index.ts, lines 183 to 189).\<close>

definition response_rejected :: "env \<Rightarrow> exn \<Rightarrow> exn + axios_response" where
  "response_rejected e error =
     Inl (KagiError_new e
       (case backend_message error of
          Some m \<Rightarrow> if truthy m then m else JStr (get_message error)
        | None \<Rightarrow> JStr (get_message error))
       (map_option status (get_response error))
       (map_option data (get_response error)))"

definition KagiAPI_new :: "env \<Rightarrow> KagiConfig \<Rightarrow> exn + KagiAPI" where
  "KagiAPI_new e config =
     (if \<not> truthy_string (apiKey config) then Inl (Error ''API key is required'')
      else Inr \<lparr>client =
        interceptors_response_use
          (axios_create e
             (or_string (baseURL config) DEFAULT_BASE_URL)
             (or_number (timeout config) DEFAULT_TIMEOUT)
             [(''Authorization'', ''Bot '' @ the (apiKey config)),
              (''Content-Type'', ''application/json'')])
          Inr
          (response_rejected e)\<rparr>)"

definition search :: "KagiAPI \<Rightarrow> SearchParams \<Rightarrow> net \<Rightarrow> (exn + json) \<times> net" where
  "search api params s =
     (case AxiosInstance_get (client api) ''/search''
             [(''q'', Some (QStr (SearchParams.q params))),
              (''limit'', Some (QNum (or_number (limit params) (Num (Finite 10)))))] s of
        (Inl error, s') \<Rightarrow> (Inl error, s')
      | (Inr response, s') \<Rightarrow> (Inr (data response), s'))"

text \<open>
  In \<open>summarize\<close> the parameters of the request are \<open>{...params, cache: ...}\<close>: the
  fields of \<open>params\<close>, a field that is not given being an entry with the value
  \<open>undefined\<close>, with the \<open>cache\<close> entry replaced. An operation that throws before it
  issues a request leaves the state as it was.
\<close>

definition summarize :: "KagiAPI \<Rightarrow> SummarizeParams \<Rightarrow> net \<Rightarrow> (exn + json) \<times> net" where
  "summarize api params s =
     (if \<not> truthy_string (url params) \<and> \<not> truthy_string (text params)
      then (Inl (Error ''Either url or text parameter is required''), s)
      else if truthy_string (url params) \<and> truthy_string (text params)
      then (Inl (Error ''Cannot provide both url and text parameters''), s)
      else
       (case AxiosInstance_get (client api) ''/summarize''
               [(''url'', map_option QStr (url params)),
                (''text'', map_option QStr (text params)),
                (''engine'', map_option QStr (engine params)),
                (''summary_type'', map_option QStr (summary_type params)),
                (''target_language'', map_option QStr (target_language params)),
                (''cache'',
                   (if SummarizeParams.cache params \<noteq> None
                    then Some (QStr (String_bool (the (SummarizeParams.cache params))))
                    else None))] s of
          (Inl error, s') \<Rightarrow> (Inl error, s')
        | (Inr response, s') \<Rightarrow> (Inr (data response), s')))"

definition fastgpt :: "KagiAPI \<Rightarrow> FastGPTParams \<Rightarrow> net \<Rightarrow> (exn + json) \<times> net" where
  "fastgpt api params s =
     (case AxiosInstance_post (client api) ''/fastgpt''
             [(''query'', Some (QStr (query params))),
              (''cache'',
                 (if FastGPTParams.cache params \<noteq> None
                  then Some (QStr (String_bool (the (FastGPTParams.cache params))))
                  else None))] s of
        (Inl error, s') \<Rightarrow> (Inl error, s')
      | (Inr response, s') \<Rightarrow> (Inr (data response), s'))"


definition testConnection :: "KagiAPI \<Rightarrow> net \<Rightarrow> (exn + bool) \<times> net" where
  "testConnection api s =
     (case search api \<lparr>SearchParams.q = ''test'', limit = Some (Num (Finite 1))\<rparr> s of
        (Inr results, s') \<Rightarrow> (Inr True, s')
      | (Inl error, s') \<Rightarrow> (Inr False, s'))"

section \<open>The tool adapter: class KagiServer\<close>

datatype ErrorCode = InvalidParams | MethodNotFound

text \<open>
  What the request handler can throw: a protocol fault of its own
  (\<open>new McpError(code, message)\<close>), or whatever the client threw.
\<close>

datatype thrown = McpError ErrorCode string | Exn exn

text \<open>A content block \<open>{type: "text", text: t}\<close>.\<close>

datatype content = TextContent string

text \<open>\<open>{toolResult: results}\<close> and \<open>{content: [...], isError: b}\<close>.\<close>

datatype CallToolResult = ToolResult json | ContentResult "content list" bool

record CallToolRequest =
  name :: string
  arguments :: "json option"

text \<open>Of the server object the request handler uses the field \<open>kagiApi\<close> only.\<close>

record KagiServer =
  kagiApi :: KagiAPI

definition CallToolRequest_handler ::
  "KagiServer \<Rightarrow> CallToolRequest \<Rightarrow> net \<Rightarrow> (thrown + CallToolResult) \<times> net" where
  "CallToolRequest_handler srv request s =
     (if name request = ''kagi_search'' then
        (let searchParams =
           (case arguments request of
              None \<Rightarrow> Inl (McpError InvalidParams ''Invalid arguments for kagi_search'')
            | Some args \<Rightarrow>
                if \<not> truthy args \<or> typeof args \<noteq> ''object''
                then Inl (McpError InvalidParams ''Invalid arguments for kagi_search'')
                else
                  (case get_prop args ''query'' of
                     Some (JStr query') \<Rightarrow>
                       (case get_prop args ''limit'' of
                          None \<Rightarrow> Inr \<lparr>SearchParams.q = query', limit = None\<rparr>
                        | Some (JNum l) \<Rightarrow>
                            if num_lt l 1 \<or> num_gt l 100
                            then Inl (McpError InvalidParams
                                   ''Limit must be a number between 1 and 100'')
                            else Inr \<lparr>SearchParams.q = query', limit = Some (Num l)\<rparr>
                        | Some other \<Rightarrow>
                            Inl (McpError InvalidParams
                                   ''Limit must be a number between 1 and 100''))
                   | other \<Rightarrow> Inl (McpError InvalidParams ''Query must be a string'')))
         in case searchParams of
              Inl fault \<Rightarrow> (Inl fault, s)
            | Inr params \<Rightarrow>
                (case search (kagiApi srv) params s of
                   (Inr results, s') \<Rightarrow> (Inr (ToolResult results), s')
                 | (Inl (KagiError m c d), s') \<Rightarrow>
                     (Inr (ContentResult [TextContent (''Kagi API error: '' @ m)] True), s')
                 | (Inl error, s') \<Rightarrow> (Inl (Exn error), s')))
      else (Inl (McpError MethodNotFound ''Unknown tool''), s))"

text \<open>
  Test doubles for the concrete instances below: a world whose transport gives every
  request the same outcome (its number formatting is never reached), and a client built
  on it with the key \<open>test-api-key\<close>.
\<close>

definition stub_env :: "exn + axios_response \<Rightarrow> env" where
  "stub_env outcome =
     \<lparr>Number_toString = (\<lambda>n. ''0''), transport = (\<lambda>b t h req. outcome)\<rparr>"

definition stub_config :: KagiConfig where
  "stub_config = \<lparr>apiKey = Some ''test-api-key'', baseURL = None, timeout = None\<rparr>"

definition stub_api :: "exn + axios_response \<Rightarrow> KagiAPI" where
  "stub_api outcome = projr (KagiAPI_new (stub_env outcome) stub_config)"

section \<open>Auxiliary facts\<close>

lemma search_request:
  "search api p s =
     (case run_interceptors (interceptors_response (client api))
             (adapter (client api)
                (Get ''/search''
                   [(''q'', Some (QStr (SearchParams.q p))),
                    (''limit'', Some (QNum (or_number (limit p) (Num (Finite 10)))))])) of
        Inl error \<Rightarrow> Inl error
      | Inr response \<Rightarrow> Inr (data response),
      s @ [Get ''/search''
             [(''q'', Some (QStr (SearchParams.q p))),
              (''limit'', Some (QNum (or_number (limit p) (Num (Finite 10)))))]])"
  by (simp add: search_def AxiosInstance_get_def AxiosInstance_request_def split: sum.splits)

lemma or_number_cases:
  "or_number x d = (case x of None \<Rightarrow> d | Some NaN \<Rightarrow> d
      | Some (Num n) \<Rightarrow> if n = Finite 0 then d else Num n)"
proof (cases x rule: truthy_number.cases)
  case (3 n)
  then show ?thesis by (cases n) (simp_all add: or_number_def)
qed (simp_all add: or_number_def)

lemma stub_api_client:
  "client (stub_api outcome) =
     interceptors_response_use
       (axios_create (stub_env outcome) DEFAULT_BASE_URL DEFAULT_TIMEOUT
          [(''Authorization'', ''Bot test-api-key''), (''Content-Type'', ''application/json'')])
       Inr (response_rejected (stub_env outcome))"
  by (simp add: stub_api_def KagiAPI_new_def stub_config_def or_string_def or_number_def)

lemma stub_env_transport: "transport (stub_env outcome) b t h req = outcome"
  by (simp add: stub_env_def)

lemma stub_api_request:
  "AxiosInstance_request (client (stub_api outcome)) req s =
     ((case outcome of Inl error \<Rightarrow> response_rejected (stub_env outcome) error
       | Inr response \<Rightarrow> Inr response), s @ [req])"
  by (simp add: stub_api_client AxiosInstance_request_def interceptors_response_use_def
      axios_create_def stub_env_transport)

lemma summarize_request:
  "truthy_string (url p) \<noteq> truthy_string (text p) \<Longrightarrow>
   snd (summarize api p s) =
     s @ [Get ''/summarize''
            [(''url'', map_option QStr (url p)),
             (''text'', map_option QStr (text p)),
             (''engine'', map_option QStr (engine p)),
             (''summary_type'', map_option QStr (summary_type p)),
             (''target_language'', map_option QStr (target_language p)),
             (''cache'', map_option (\<lambda>b. QStr (String_bool b)) (SummarizeParams.cache p))]]"
  by (auto simp: summarize_def AxiosInstance_get_def AxiosInstance_request_def
      split: sum.splits)

lemma fastgpt_request:
  "snd (fastgpt api g s) =
     s @ [Post ''/fastgpt''
            [(''query'', Some (QStr (query g))),
             (''cache'', map_option (\<lambda>b. QStr (String_bool b)) (FastGPTParams.cache g))]]"
  by (auto simp: fastgpt_def AxiosInstance_post_def AxiosInstance_request_def
      split: sum.splits)

lemma search_snd:
  "snd (search api p s) =
     s @ [Get ''/search''
            [(''q'', Some (QStr (SearchParams.q p))),
             (''limit'', Some (QNum (or_number (limit p) (Num (Finite 10)))))]]"
  by (simp add: search_request)

lemma handler_unknown_tool:
  "name req \<noteq> ''kagi_search'' \<Longrightarrow>
   CallToolRequest_handler srv req s = (Inl (McpError MethodNotFound ''Unknown tool''), s)"
  by (simp add: CallToolRequest_handler_def)

lemma handler_no_arguments:
  "name req = ''kagi_search'' \<Longrightarrow> arguments req = None \<Longrightarrow>
   CallToolRequest_handler srv req s =
     (Inl (McpError InvalidParams ''Invalid arguments for kagi_search''), s)"
  by (simp add: CallToolRequest_handler_def)

lemma handler_not_object:
  "name req = ''kagi_search'' \<Longrightarrow> arguments req = Some a \<Longrightarrow> \<forall>kvs. a \<noteq> JObj kvs \<Longrightarrow>
   CallToolRequest_handler srv req s =
       (Inl (McpError InvalidParams ''Invalid arguments for kagi_search''), s) \<or>
   CallToolRequest_handler srv req s =
       (Inl (McpError InvalidParams ''Query must be a string''), s)"
  by (cases a) (simp_all add: CallToolRequest_handler_def)

lemma handler_query_not_string:
  "name req = ''kagi_search'' \<Longrightarrow> arguments req = Some a \<Longrightarrow>
   \<forall>qs. get_prop a ''query'' \<noteq> Some (JStr qs) \<Longrightarrow>
   CallToolRequest_handler srv req s =
       (Inl (McpError InvalidParams ''Invalid arguments for kagi_search''), s) \<or>
   CallToolRequest_handler srv req s =
       (Inl (McpError InvalidParams ''Query must be a string''), s)"
  by (cases a)
    (auto simp: CallToolRequest_handler_def split: option.splits json.splits)

lemma handler_bad_limit:
  "name req = ''kagi_search'' \<Longrightarrow> arguments req = Some (JObj kvs) \<Longrightarrow>
   map_of kvs ''query'' = Some (JStr qs) \<Longrightarrow> map_of kvs ''limit'' = Some v \<Longrightarrow>
   \<forall>r. v = JNum (Finite r) \<longrightarrow> r < 1 \<or> 100 < r \<Longrightarrow>
   CallToolRequest_handler srv req s =
     (Inl (McpError InvalidParams ''Limit must be a number between 1 and 100''), s)"
proof (cases v)
  case (JNum n)
  assume "name req = ''kagi_search''" "arguments req = Some (JObj kvs)"
    "map_of kvs ''query'' = Some (JStr qs)" "map_of kvs ''limit'' = Some v"
    "\<forall>r. v = JNum (Finite r) \<longrightarrow> r < 1 \<or> 100 < r"
  with JNum show ?thesis
    by (cases n) (auto simp: CallToolRequest_handler_def)
qed (simp_all add: CallToolRequest_handler_def)

lemma handler_calls_search:
  "name req = ''kagi_search'' \<Longrightarrow> arguments req = Some (JObj kvs) \<Longrightarrow>
   map_of kvs ''query'' = Some (JStr qs) \<Longrightarrow>
   map_of kvs ''limit'' = None \<and> l = None \<or>
   (\<exists>r. map_of kvs ''limit'' = Some (JNum (Finite r)) \<and> 1 \<le> r \<and> r \<le> 100 \<and>
        l = Some (Num (Finite r))) \<Longrightarrow>
   CallToolRequest_handler srv req s =
     (case search (kagiApi srv) \<lparr>SearchParams.q = qs, limit = l\<rparr> s of
        (Inr results, s') \<Rightarrow> (Inr (ToolResult results), s')
      | (Inl (KagiError m c d), s') \<Rightarrow>
          (Inr (ContentResult [TextContent (''Kagi API error: '' @ m)] True), s')
      | (Inl error, s') \<Rightarrow> (Inl (Exn error), s'))"
  by (auto simp: CallToolRequest_handler_def)













lemma stub_api_search:
  "search (stub_api outcome) p s =
     ((case outcome of
         Inl error \<Rightarrow> (case response_rejected (stub_env outcome) error of
                         Inl x \<Rightarrow> Inl x | Inr response \<Rightarrow> Inr (data response))
       | Inr response \<Rightarrow> Inr (data response)),
      s @ [Get ''/search''
             [(''q'', Some (QStr (SearchParams.q p))),
              (''limit'', Some (QNum (or_number (limit p) (Num (Finite 10)))))]])"
  by (simp add: search_def AxiosInstance_get_def stub_api_request split: sum.splits)

section \<open>The claims\<close>




text \<open>
  Claim C2. In a call of \<open>kagi_search\<close> whose arguments pass validation, when the
  client's \<open>search\<close> rejects with a \<open>KagiError\<close> the handler returns the result
  whose content is the one text block \<open>Kagi API error: <message>\<close> and whose
  \<open>isError\<close> is \<open>true\<close>; when it rejects with anything else, the handler throws
  that same exception.
\<close>

theorem handler_client_errors:
  assumes "name req = ''kagi_search''"
    and "arguments req = Some (JObj kvs)"
    and "map_of kvs ''query'' = Some (JStr qs)"
    and "map_of kvs ''limit'' = None \<and> l = None \<or>
         (\<exists>r. map_of kvs ''limit'' = Some (JNum (Finite r)) \<and> 1 \<le> r \<and> r \<le> 100 \<and>
              l = Some (Num (Finite r)))"
  shows "(\<forall>m c d s'.
            search (kagiApi srv) \<lparr>SearchParams.q = qs, limit = l\<rparr> s =
              (Inl (KagiError m c d), s') \<longrightarrow>
            CallToolRequest_handler srv req s =
              (Inr (ContentResult [TextContent (''Kagi API error: '' @ m)] True), s')) \<and>
         (\<forall>x s'.
            search (kagiApi srv) \<lparr>SearchParams.q = qs, limit = l\<rparr> s = (Inl x, s') \<and>
            (\<forall>m c d. x \<noteq> KagiError m c d) \<longrightarrow>
            CallToolRequest_handler srv req s = (Inl (Exn x), s'))"
  unfolding handler_calls_search [OF assms, of srv s]
  by (auto split: exn.splits)

text \<open>
  A client whose backend answers 400 with a message, and a client without the
  interceptor, whose \<open>search\<close> rejects with a plain \<open>Error\<close>.
\<close>

theorem handler_client_errors_witness:
  "CallToolRequest_handler
      \<lparr>kagiApi = stub_api (Inl (AxiosError ''Request failed with status code 400''
         (Some \<lparr>status = 400, data = JObj [(''message'', JStr ''Invalid request'')]\<rparr>)))\<rparr>
      \<lparr>name = ''kagi_search'', arguments = Some (JObj [(''query'', JStr ''x'')])\<rparr> [] =
     (Inr (ContentResult [TextContent ''Kagi API error: Invalid request''] True),
      [Get ''/search'' [(''q'', Some (QStr ''x'')), (''limit'', Some (QNum (Num (Finite 10))))]]) \<and>
   CallToolRequest_handler
      \<lparr>kagiApi = \<lparr>client = axios_create (stub_env (Inl (Error ''Network error'')))
        DEFAULT_BASE_URL DEFAULT_TIMEOUT []\<rparr>\<rparr>
      \<lparr>name = ''kagi_search'', arguments = Some (JObj [(''query'', JStr ''x'')])\<rparr> [] =
     (Inl (Exn (Error ''Network error'')),
      [Get ''/search'' [(''q'', Some (QStr ''x'')), (''limit'', Some (QNum (Num (Finite 10))))]])"
proof -
  let ?req = "\<lparr>name = ''kagi_search'', arguments = Some (JObj [(''query'', JStr ''x'')])\<rparr>"
  let ?p = "\<lparr>SearchParams.q = ''x'', limit = None\<rparr>"
  let ?log = "[Get ''/search'' [(''q'', Some (QStr ''x'')), (''limit'', Some (QNum (Num (Finite 10))))]]"
  let ?a1 = "stub_api (Inl (AxiosError ''Request failed with status code 400''
         (Some \<lparr>status = 400, data = JObj [(''message'', JStr ''Invalid request'')]\<rparr>)))"
  let ?a2 = "\<lparr>client = axios_create (stub_env (Inl (Error ''Network error'')))
        DEFAULT_BASE_URL DEFAULT_TIMEOUT []\<rparr>"
  have s1: "search ?a1 ?p [] =
      (Inl (KagiError ''Invalid request'' (Some 400)
              (Some (JObj [(''message'', JStr ''Invalid request'')]))), ?log)"
    by (simp add: stub_api_search response_rejected_def backend_message_def KagiError_new_def or_number_def)
  have s2: "search ?a2 ?p [] = (Inl (Error ''Network error''), ?log)"
    by (simp add: search_request axios_create_def stub_env_transport or_number_def)
  have 1: "CallToolRequest_handler \<lparr>kagiApi = ?a1\<rparr> ?req [] =
      (Inr (ContentResult [TextContent ''Kagi API error: Invalid request''] True), ?log)"
    using handler_client_errors
      [of ?req "[(''query'', JStr ''x'')]" "''x''" None "\<lparr>kagiApi = ?a1\<rparr>" "[]"] s1
    by simp
  have 2: "CallToolRequest_handler \<lparr>kagiApi = ?a2\<rparr> ?req [] =
      (Inl (Exn (Error ''Network error'')), ?log)"
    using handler_client_errors
      [of ?req "[(''query'', JStr ''x'')]" "''x''" None "\<lparr>kagiApi = ?a2\<rparr>" "[]"] s2
    by simp
  from 1 2 show ?thesis by simp
qed

text \<open>
  Claim C3. In a call of \<open>kagi_search\<close> whose arguments have a \<open>limit\<close> field, the
  handler throws an \<open>InvalidParams\<close> fault, without calling the client, unless the limit
  is a number between 1 and 100 inclusive. When it is, and the query is a string, the client's
  \<open>search\<close> is called with that limit unchanged: the state after the handler is the
  state after that search, whose request carries the limit, and a resolved search is
  returned as the tool's result.
\<close>

theorem handler_limit_validation:
  assumes "name req = ''kagi_search''"
    and "arguments req = Some (JObj kvs)"
    and "map_of kvs ''limit'' = Some v"
  shows "((\<forall>r. v = JNum (Finite r) \<longrightarrow> r < 1 \<or> 100 < r) \<longrightarrow>
            (\<exists>m. CallToolRequest_handler srv req s = (Inl (McpError InvalidParams m), s))) \<and>
         (\<forall>r qs res s'.
            v = JNum (Finite r) \<and> 1 \<le> r \<and> r \<le> 100 \<and>
            map_of kvs ''query'' = Some (JStr qs) \<and>
            search (kagiApi srv) \<lparr>SearchParams.q = qs, limit = Some (Num (Finite r))\<rparr> s = (res, s')
            \<longrightarrow>
              snd (CallToolRequest_handler srv req s) = s' \<and>
              s' = s @ [Get ''/search'' [(''q'', Some (QStr qs)),
                                         (''limit'', Some (QNum (Num (Finite r))))]] \<and>
              (\<forall>results. res = Inr results \<longrightarrow>
                 fst (CallToolRequest_handler srv req s) = Inr (ToolResult results)))"
proof (intro conjI impI allI)
  assume bad: "\<forall>r. v = JNum (Finite r) \<longrightarrow> r < 1 \<or> 100 < r"
  show "\<exists>m. CallToolRequest_handler srv req s = (Inl (McpError InvalidParams m), s)"
  proof (cases "\<exists>qs. map_of kvs ''query'' = Some (JStr qs)")
    case True
    then obtain qs where "map_of kvs ''query'' = Some (JStr qs)" ..
    from handler_bad_limit [OF assms(1,2) this assms(3) bad] show ?thesis by blast
  next
    case False
    then have "\<forall>qs. get_prop (JObj kvs) ''query'' \<noteq> Some (JStr qs)" by simp
    from handler_query_not_string [OF assms(1,2) this] show ?thesis by blast
  qed
next
  fix r qs res s'
  assume h: "v = JNum (Finite r) \<and> 1 \<le> r \<and> r \<le> 100 \<and>
            map_of kvs ''query'' = Some (JStr qs) \<and>
            search (kagiApi srv) \<lparr>SearchParams.q = qs, limit = Some (Num (Finite r))\<rparr> s = (res, s')"
  then have lim0: "map_of kvs ''limit'' = None \<and> Some (Num (Finite r)) = None \<or>
      (\<exists>r'. map_of kvs ''limit'' = Some (JNum (Finite r')) \<and> 1 \<le> r' \<and> r' \<le> 100 \<and>
         Some (Num (Finite r)) = Some (Num (Finite r')))"
    using assms(3) by simp
  from h have q: "map_of kvs ''query'' = Some (JStr qs)" by simp
  note eq = handler_calls_search [OF assms(1,2) q lim0, of srv s]
  from h have sr: "search (kagiApi srv) \<lparr>SearchParams.q = qs, limit = Some (Num (Finite r))\<rparr> s = (res, s')"
    by simp
  show "snd (CallToolRequest_handler srv req s) = s'"
    unfolding eq sr by (simp split: sum.splits exn.splits)
  from h have "r \<noteq> 0" by auto
  with search_snd [of "kagiApi srv" "\<lparr>SearchParams.q = qs, limit = Some (Num (Finite r))\<rparr>" s] sr
  show "s' = s @ [Get ''/search'' [(''q'', Some (QStr qs)),
                                   (''limit'', Some (QNum (Num (Finite r))))]]"
    by (simp add: or_number_def)
  show "\<And>results. res = Inr results \<Longrightarrow>
      fst (CallToolRequest_handler srv req s) = Inr (ToolResult results)"
    unfolding eq sr by simp
qed

text \<open>
  The limits \<open>0\<close> and \<open>101\<close> are rejected; the limit \<open>5\<close> reaches the request.
\<close>

theorem handler_limit_validation_witness:
  "(\<exists>m. CallToolRequest_handler \<lparr>kagiApi = stub_api (Inr \<lparr>status = 200, data = JNull\<rparr>)\<rparr>
      \<lparr>name = ''kagi_search'',
       arguments = Some (JObj [(''query'', JStr ''x''), (''limit'', JNum (Finite 0))])\<rparr> [] =
     (Inl (McpError InvalidParams m), [])) \<and>
   (\<exists>m. CallToolRequest_handler \<lparr>kagiApi = stub_api (Inr \<lparr>status = 200, data = JNull\<rparr>)\<rparr>
      \<lparr>name = ''kagi_search'',
       arguments = Some (JObj [(''query'', JStr ''x''), (''limit'', JNum (Finite 101))])\<rparr> [] =
     (Inl (McpError InvalidParams m), [])) \<and>
   CallToolRequest_handler \<lparr>kagiApi = stub_api (Inr \<lparr>status = 200, data = JNull\<rparr>)\<rparr>
      \<lparr>name = ''kagi_search'',
       arguments = Some (JObj [(''query'', JStr ''x''), (''limit'', JNum (Finite 5))])\<rparr> [] =
     (Inr (ToolResult JNull),
      [Get ''/search'' [(''q'', Some (QStr ''x'')), (''limit'', Some (QNum (Num (Finite 5))))]])"
proof -
  let ?srv = "\<lparr>kagiApi = stub_api (Inr \<lparr>status = 200, data = JNull\<rparr>)\<rparr>"
  let ?req = "\<lambda>n. \<lparr>name = ''kagi_search'',
       arguments = Some (JObj [(''query'', JStr ''x''), (''limit'', JNum (Finite n))])\<rparr>"
  have 0: "\<exists>m. CallToolRequest_handler ?srv (?req 0) [] = (Inl (McpError InvalidParams m), [])"
    using handler_limit_validation
      [of "?req 0" "[(''query'', JStr ''x''), (''limit'', JNum (Finite 0))]" "JNum (Finite 0)" ?srv "[]"]
    by simp
  have 101: "\<exists>m. CallToolRequest_handler ?srv (?req 101) [] = (Inl (McpError InvalidParams m), [])"
    using handler_limit_validation
      [of "?req 101" "[(''query'', JStr ''x''), (''limit'', JNum (Finite 101))]" "JNum (Finite 101)" ?srv "[]"]
    by simp
  have s: "search (kagiApi ?srv) \<lparr>SearchParams.q = ''x'', limit = Some (Num (Finite 5))\<rparr> [] =
      (Inr JNull, [Get ''/search'' [(''q'', Some (QStr ''x'')), (''limit'', Some (QNum (Num (Finite 5))))]])"
    by (simp add: stub_api_search or_number_def)
  have 5: "CallToolRequest_handler ?srv (?req 5) [] =
     (Inr (ToolResult JNull),
      [Get ''/search'' [(''q'', Some (QStr ''x'')), (''limit'', Some (QNum (Num (Finite 5))))]])"
    using handler_limit_validation
      [of "?req 5" "[(''query'', JStr ''x''), (''limit'', JNum (Finite 5))]" "JNum (Finite 5)" ?srv "[]"] s
    by (simp add: prod_eq_iff)
  from 0 101 5 show ?thesis by simp
qed

text \<open>
  Claim C4. A \<open>summarize\<close> call with neither a url nor a text (each absent or empty)
  fails with the plain error \<open>Either url or text parameter is required\<close>, and one with
  both (each a non-empty string) with the plain error
  \<open>Cannot provide both url and text parameters\<close>. In both cases no request has been
  issued: the state of the network is unchanged. The two errors are different, and neither
  is a \<open>KagiError\<close>.
\<close>

theorem summarize_input_errors:
  "((url p = None \<or> url p = Some []) \<and> (text p = None \<or> text p = Some []) \<longrightarrow>
      summarize api p s = (Inl (Error ''Either url or text parameter is required''), s)) \<and>
   (\<forall>u t. url p = Some u \<and> u \<noteq> [] \<and> text p = Some t \<and> t \<noteq> [] \<longrightarrow>
      summarize api p s = (Inl (Error ''Cannot provide both url and text parameters''), s)) \<and>
   Error ''Either url or text parameter is required'' \<noteq>
     Error ''Cannot provide both url and text parameters'' \<and>
   (\<forall>m c d. Error ''Either url or text parameter is required'' \<noteq> KagiError m c d \<and>
      Error ''Cannot provide both url and text parameters'' \<noteq> KagiError m c d)"
  by (auto simp: summarize_def)

text \<open>
The two failing calls of the test suite.
\<close>

theorem summarize_input_errors_witness:
  "summarize (stub_api (Inr \<lparr>status = 200, data = JNull\<rparr>))
      \<lparr>url = None, text = None, engine = None, summary_type = None, target_language = None,
       SummarizeParams.cache = None\<rparr> [] =
     (Inl (Error ''Either url or text parameter is required''), []) \<and>
   summarize (stub_api (Inr \<lparr>status = 200, data = JNull\<rparr>))
      \<lparr>url = Some ''https://example.com'', text = Some ''content'', engine = None,
       summary_type = None, target_language = None, SummarizeParams.cache = None\<rparr> [] =
     (Inl (Error ''Cannot provide both url and text parameters''), [])"
  using summarize_input_errors
          [of "\<lparr>url = None, text = None, engine = None, summary_type = None,
                target_language = None, SummarizeParams.cache = None\<rparr>"
              "stub_api (Inr \<lparr>status = 200, data = JNull\<rparr>)" "[]"]
        summarize_input_errors
          [of "\<lparr>url = Some ''https://example.com'', text = Some ''content'', engine = None,
                summary_type = None, target_language = None, SummarizeParams.cache = None\<rparr>"
              "stub_api (Inr \<lparr>status = 200, data = JNull\<rparr>)" "[]"]
  by simp

text \<open>
  Claim C5. A call of any tool other than \<open>kagi_search\<close> throws the fault
  \<open>MethodNotFound\<close>. A call of \<open>kagi_search\<close> throws an \<open>InvalidParams\<close> fault when
  no arguments are supplied, when the arguments are not an object, and when the \<open>query\<close>
  field is not a string. No request is issued in either case.
\<close>

theorem handler_protocol_faults:
  "(name req \<noteq> ''kagi_search'' \<longrightarrow>
      CallToolRequest_handler srv req s = (Inl (McpError MethodNotFound ''Unknown tool''), s)) \<and>
   (name req = ''kagi_search'' \<and>
    (arguments req = None \<or>
     (\<exists>a. arguments req = Some a \<and>
        ((\<forall>kvs. a \<noteq> JObj kvs) \<or> (\<forall>qs. get_prop a ''query'' \<noteq> Some (JStr qs))))) \<longrightarrow>
      (\<exists>m. CallToolRequest_handler srv req s = (Inl (McpError InvalidParams m), s)))"
proof (intro conjI impI)
  assume "name req \<noteq> ''kagi_search''"
  then show "CallToolRequest_handler srv req s =
      (Inl (McpError MethodNotFound ''Unknown tool''), s)"
    by (rule handler_unknown_tool)
next
  assume a: "name req = ''kagi_search'' \<and>
    (arguments req = None \<or>
     (\<exists>a. arguments req = Some a \<and>
        ((\<forall>kvs. a \<noteq> JObj kvs) \<or> (\<forall>qs. get_prop a ''query'' \<noteq> Some (JStr qs)))))"
  then have n: "name req = ''kagi_search''" by simp
  from a consider "arguments req = None"
    | a where "arguments req = Some a" "\<forall>kvs. a \<noteq> JObj kvs"
    | a where "arguments req = Some a" "\<forall>qs. get_prop a ''query'' \<noteq> Some (JStr qs)"
    by auto
  then show "\<exists>m. CallToolRequest_handler srv req s = (Inl (McpError InvalidParams m), s)"
  proof cases
    case 1
    with n show ?thesis using handler_no_arguments by blast
  next
    case 2
    with n show ?thesis using handler_not_object [of req a srv s] by blast
  next
    case 3
    with n show ?thesis using handler_query_not_string [of req a srv s] by blast
  qed
qed

text \<open>
  An unregistered tool, a call without arguments, and a call with \<open>{}\<close> (no query).
\<close>

theorem handler_protocol_faults_witness:
  "CallToolRequest_handler \<lparr>kagiApi = stub_api (Inr \<lparr>status = 200, data = JNull\<rparr>)\<rparr>
      \<lparr>name = ''kagi_summarize'', arguments = Some (JObj [(''query'', JStr ''x'')])\<rparr> [] =
     (Inl (McpError MethodNotFound ''Unknown tool''), []) \<and>
   (\<exists>m. CallToolRequest_handler \<lparr>kagiApi = stub_api (Inr \<lparr>status = 200, data = JNull\<rparr>)\<rparr>
      \<lparr>name = ''kagi_search'', arguments = None\<rparr> [] =
     (Inl (McpError InvalidParams m), [])) \<and>
   (\<exists>m. CallToolRequest_handler \<lparr>kagiApi = stub_api (Inr \<lparr>status = 200, data = JNull\<rparr>)\<rparr>
      \<lparr>name = ''kagi_search'', arguments = Some (JObj [])\<rparr> [] =
     (Inl (McpError InvalidParams m), []))"
  using handler_protocol_faults
          [of "\<lparr>name = ''kagi_summarize'', arguments = Some (JObj [(''query'', JStr ''x'')])\<rparr>"
              "\<lparr>kagiApi = stub_api (Inr \<lparr>status = 200, data = JNull\<rparr>)\<rparr>" "[]"]
        handler_protocol_faults
          [of "\<lparr>name = ''kagi_search'', arguments = None\<rparr>"
              "\<lparr>kagiApi = stub_api (Inr \<lparr>status = 200, data = JNull\<rparr>)\<rparr>" "[]"]
        handler_protocol_faults
          [of "\<lparr>name = ''kagi_search'', arguments = Some (JObj [])\<rparr>"
              "\<lparr>kagiApi = stub_api (Inr \<lparr>status = 200, data = JNull\<rparr>)\<rparr>" "[]"]
  by simp

text \<open>
  Claim C6. Constructing the client with an absent or empty API key fails with the error
  \<open>API key is required\<close>, whatever the other fields and the world are; the constructor
  has no access to the state of the network. With a key, it succeeds, and the instance
  carries the header \<open>Authorization: Bot <key>\<close>, the header
  \<open>Content-Type: application/json\<close>, the given base URL or the default
  \<open>https://kagi.com/api/v0\<close>, and the given timeout or the default \<open>30000\<close>; an
  empty base URL and a timeout of \<open>0\<close> or \<open>NaN\<close> select the default, as
  \<open>||\<close> does.
\<close>

theorem KagiAPI_new_contract:
  "(apiKey config = None \<or> apiKey config = Some [] \<longrightarrow>
      KagiAPI_new e config = Inl (Error ''API key is required'')) \<and>
   (\<forall>k. apiKey config = Some k \<and> k \<noteq> [] \<longrightarrow>
      (\<exists>api. KagiAPI_new e config = Inr api \<and>
         map_of (defaults_headers (client api)) ''Authorization'' = Some (''Bot '' @ k) \<and>
         map_of (defaults_headers (client api)) ''Content-Type'' = Some ''application/json'' \<and>
         defaults_baseURL (client api) =
           (case baseURL config of
              None \<Rightarrow> ''https://kagi.com/api/v0''
            | Some u \<Rightarrow> if u = [] then ''https://kagi.com/api/v0'' else u) \<and>
         defaults_timeout (client api) =
           (case timeout config of
              None \<Rightarrow> Num (Finite 30000)
            | Some t \<Rightarrow> if t = NaN \<or> t = Num (Finite 0) then Num (Finite 30000) else t)))"
  by (auto simp: KagiAPI_new_def interceptors_response_use_def axios_create_def
        or_string_def or_number_cases DEFAULT_BASE_URL_def DEFAULT_TIMEOUT_def
      split: option.splits number.splits)

text \<open>
An empty key beside other fields, and the configuration of the test suite.
\<close>

theorem KagiAPI_new_contract_witness:
  "KagiAPI_new (stub_env (Inl (Error ''unreachable'')))
      \<lparr>apiKey = Some [], baseURL = Some ''http://localhost'', timeout = Some (Num (Finite 5))\<rparr> =
     Inl (Error ''API key is required'') \<and>
   (\<exists>api. KagiAPI_new (stub_env (Inl (Error ''unreachable''))) stub_config = Inr api \<and>
      map_of (defaults_headers (client api)) ''Authorization'' = Some ''Bot test-api-key'' \<and>
      map_of (defaults_headers (client api)) ''Content-Type'' = Some ''application/json'' \<and>
      defaults_baseURL (client api) = ''https://kagi.com/api/v0'' \<and>
      defaults_timeout (client api) = Num (Finite 30000))"
  using KagiAPI_new_contract
          [of "\<lparr>apiKey = Some [], baseURL = Some ''http://localhost'',
                timeout = Some (Num (Finite 5))\<rparr>" "stub_env (Inl (Error ''unreachable''))"]
        KagiAPI_new_contract [of stub_config "stub_env (Inl (Error ''unreachable''))"]
  by (simp add: stub_config_def)

text \<open>
  Claim C7, as amended. A search whose parameters omit \<open>limit\<close> issues a request with
  \<open>limit = 10\<close>; a search with a supplied limit that is neither \<open>0\<close> nor \<open>NaN\<close>
  (\<open>5\<close>, say) issues a request with that limit.
\<close>

theorem search_limit_default_or_supplied:
  "(limit p = None \<longrightarrow>
      snd (search api p s) =
        s @ [Get ''/search'' [(''q'', Some (QStr (SearchParams.q p))),
                              (''limit'', Some (QNum (Num (Finite 10))))]]) \<and>
   (\<forall>l. limit p = Some l \<and> l \<noteq> NaN \<and> l \<noteq> Num (Finite 0) \<longrightarrow>
      snd (search api p s) =
        s @ [Get ''/search'' [(''q'', Some (QStr (SearchParams.q p))),
                              (''limit'', Some (QNum l))]])"
  by (auto simp: search_request or_number_cases split: number.splits)

text \<open>
The two calls of the test suite: no limit, and \<open>limit = 5\<close>.
\<close>

theorem search_limit_default_or_supplied_witness:
  "snd (search (stub_api (Inr \<lparr>status = 200, data = JNull\<rparr>))
          \<lparr>SearchParams.q = ''test query'', limit = None\<rparr> []) =
     [Get ''/search'' [(''q'', Some (QStr ''test query'')),
                       (''limit'', Some (QNum (Num (Finite 10))))]] \<and>
   snd (search (stub_api (Inr \<lparr>status = 200, data = JNull\<rparr>))
          \<lparr>SearchParams.q = ''test query'', limit = Some (Num (Finite 5))\<rparr> []) =
     [Get ''/search'' [(''q'', Some (QStr ''test query'')),
                       (''limit'', Some (QNum (Num (Finite 5))))]]"
  using search_limit_default_or_supplied
          [of "\<lparr>SearchParams.q = ''test query'', limit = None\<rparr>"
              "stub_api (Inr \<lparr>status = 200, data = JNull\<rparr>)" "[]"]
        search_limit_default_or_supplied
          [of "\<lparr>SearchParams.q = ''test query'', limit = Some (Num (Finite 5))\<rparr>"
              "stub_api (Inr \<lparr>status = 200, data = JNull\<rparr>)" "[]"]
  by simp

text \<open>
  Claim C7 as written says that any supplied limit is carried by the request. A search
  called with \<open>limit = 0\<close> issues a request with \<open>limit = 10\<close>, not \<open>0\<close>:
  \<open>params.limit || 10\<close> replaces every falsy limit.
\<close>

theorem search_supplied_limit_counterexample:
  "snd (search (stub_api (Inr \<lparr>status = 200, data = JNull\<rparr>))
          \<lparr>SearchParams.q = ''x'', limit = Some (Num (Finite 0))\<rparr> []) =
     [Get ''/search'' [(''q'', Some (QStr ''x'')), (''limit'', Some (QNum (Num (Finite 10))))]] \<and>
   snd (search (stub_api (Inr \<lparr>status = 200, data = JNull\<rparr>))
          \<lparr>SearchParams.q = ''x'', limit = Some (Num (Finite 0))\<rparr> []) \<noteq>
     [Get ''/search'' [(''q'', Some (QStr ''x'')), (''limit'', Some (QNum (Num (Finite 0))))]]"
  by (simp add: search_def AxiosInstance_get_def stub_api_request or_number_def)

text \<open>
  Claim C8. \<open>testConnection\<close> issues the request of a search with query \<open>test\<close> and
  limit \<open>1\<close>; it returns \<open>true\<close> when that search resolves and \<open>false\<close> when it
  rejects, with whatever error; it never rejects itself.
\<close>

theorem testConnection_contract:
  "snd (testConnection api s) =
     s @ [Get ''/search'' [(''q'', Some (QStr ''test'')),
                           (''limit'', Some (QNum (Num (Finite 1))))]] \<and>
   (\<forall>results s'.
      search api \<lparr>SearchParams.q = ''test'', limit = Some (Num (Finite 1))\<rparr> s = (Inr results, s')
      \<longrightarrow> fst (testConnection api s) = Inr True) \<and>
   (\<forall>error s'.
      search api \<lparr>SearchParams.q = ''test'', limit = Some (Num (Finite 1))\<rparr> s = (Inl error, s')
      \<longrightarrow> fst (testConnection api s) = Inr False) \<and>
   (\<forall>error. fst (testConnection api s) \<noteq> Inl error)"
proof -
  let ?p = "\<lparr>SearchParams.q = ''test'', limit = Some (Num (Finite 1))\<rparr>"
  have req: "snd (search api ?p s) =
     s @ [Get ''/search'' [(''q'', Some (QStr ''test'')),
                           (''limit'', Some (QNum (Num (Finite 1))))]]"
    by (simp add: search_request or_number_def)
  obtain r s' where rs: "search api ?p s = (r, s')"
    by (cases "search api ?p s")
  with req have s': "s' = s @ [Get ''/search'' [(''q'', Some (QStr ''test'')),
                           (''limit'', Some (QNum (Num (Finite 1))))]]"
    by simp
  show ?thesis
    using rs s' by (cases r) (simp_all add: testConnection_def)
qed

text \<open>
A backend that answers, and a transport that fails with \<open>Network error\<close>.
\<close>

theorem testConnection_contract_witness:
  "testConnection (stub_api (Inr \<lparr>status = 200, data = JObj [(''data'', JArr [])]\<rparr>)) [] =
     (Inr True, [Get ''/search'' [(''q'', Some (QStr ''test'')),
                                  (''limit'', Some (QNum (Num (Finite 1))))]]) \<and>
   testConnection (stub_api (Inl (Error ''Network error''))) [] =
     (Inr False, [Get ''/search'' [(''q'', Some (QStr ''test'')),
                                   (''limit'', Some (QNum (Num (Finite 1))))]])"
proof -
  let ?ok = "stub_api (Inr \<lparr>status = 200, data = JObj [(''data'', JArr [])]\<rparr>)"
  let ?ko = "stub_api (Inl (Error ''Network error''))"
  let ?p = "\<lparr>SearchParams.q = ''test'', limit = Some (Num (Finite 1))\<rparr>"
  have ok: "fst (search ?ok ?p []) = Inr (JObj [(''data'', JArr [])])"
    by (simp add: search_def AxiosInstance_get_def stub_api_request)
  have ko: "fst (search ?ko ?p []) =
      Inl (KagiError ''Network error'' None None)"
    by (simp add: search_def AxiosInstance_get_def stub_api_request response_rejected_def
        backend_message_def KagiError_new_def)
  from ok testConnection_contract [of ?ok "[]"]
  have 1: "fst (testConnection ?ok []) = Inr True"
    by (metis prod.collapse)
  from ko testConnection_contract [of ?ko "[]"]
  have 2: "fst (testConnection ?ko []) = Inr False"
    by (metis prod.collapse)
  from 1 2 testConnection_contract [of ?ok "[]"] testConnection_contract [of ?ko "[]"]
  show ?thesis
    by (simp add: prod_eq_iff)
qed

text \<open>
  Claim C9. A \<open>summarize\<close> call that passes validation and every \<open>fastgpt\<close> call issue
  one request whose \<open>cache\<close> entry is the string \<open>true\<close> or \<open>false\<close> when
  the flag is given, and \<open>undefined\<close> when it is not; what is transmitted then has
  no \<open>cache\<close> entry.
\<close>

theorem cache_serialized:
  "(truthy_string (url p) \<noteq> truthy_string (text p) \<longrightarrow>
      (\<exists>params. snd (summarize api p s) = s @ [Get ''/summarize'' params] \<and>
         map_of params ''cache'' =
           Some (case SummarizeParams.cache p of
                   None \<Rightarrow> None
                 | Some b \<Rightarrow> Some (QStr (if b then ''true'' else ''false''))) \<and>
         map_of (transmitted params) ''cache'' =
           (case SummarizeParams.cache p of
              None \<Rightarrow> None
            | Some b \<Rightarrow> Some (QStr (if b then ''true'' else ''false''))))) \<and>
   (\<exists>body. snd (fastgpt api g s) = s @ [Post ''/fastgpt'' body] \<and>
      map_of body ''cache'' =
        Some (case FastGPTParams.cache g of
                None \<Rightarrow> None
              | Some b \<Rightarrow> Some (QStr (if b then ''true'' else ''false''))) \<and>
      map_of (transmitted body) ''cache'' =
        (case FastGPTParams.cache g of
           None \<Rightarrow> None
         | Some b \<Rightarrow> Some (QStr (if b then ''true'' else ''false''))))"
proof (intro conjI impI)
  assume "truthy_string (url p) \<noteq> truthy_string (text p)"
  from summarize_request [OF this, of api s]
  show "\<exists>params. snd (summarize api p s) = s @ [Get ''/summarize'' params] \<and>
         map_of params ''cache'' =
           Some (case SummarizeParams.cache p of
                   None \<Rightarrow> None
                 | Some b \<Rightarrow> Some (QStr (if b then ''true'' else ''false''))) \<and>
         map_of (transmitted params) ''cache'' =
           (case SummarizeParams.cache p of
              None \<Rightarrow> None
            | Some b \<Rightarrow> Some (QStr (if b then ''true'' else ''false'')))"
    by (cases "url p"; cases "text p"; cases "engine p"; cases "summary_type p";
        cases "target_language p"; cases "SummarizeParams.cache p")
      (simp_all add: String_bool_def)
next
  show "\<exists>body. snd (fastgpt api g s) = s @ [Post ''/fastgpt'' body] \<and>
      map_of body ''cache'' =
        Some (case FastGPTParams.cache g of
                None \<Rightarrow> None
              | Some b \<Rightarrow> Some (QStr (if b then ''true'' else ''false''))) \<and>
      map_of (transmitted body) ''cache'' =
        (case FastGPTParams.cache g of
           None \<Rightarrow> None
         | Some b \<Rightarrow> Some (QStr (if b then ''true'' else ''false'')))"
    by (cases "FastGPTParams.cache g") (simp_all add: fastgpt_request String_bool_def)
qed

text \<open>
A summary of a URL with \<open>cache = false\<close>, and a FastGPT query without the flag.
\<close>

theorem cache_serialized_witness:
  "(\<exists>params.
      snd (summarize (stub_api (Inr \<lparr>status = 200, data = JNull\<rparr>))
             \<lparr>url = Some ''https://example.com'', text = None, engine = None,
              summary_type = None, target_language = None,
              SummarizeParams.cache = Some False\<rparr> []) = [Get ''/summarize'' params] \<and>
      map_of (transmitted params) ''cache'' = Some (QStr ''false'')) \<and>
   (\<exists>body.
      snd (fastgpt (stub_api (Inr \<lparr>status = 200, data = JNull\<rparr>))
             \<lparr>query = ''Explain quantum computing'', FastGPTParams.cache = None\<rparr> []) =
        [Post ''/fastgpt'' body] \<and>
      map_of (transmitted body) ''cache'' = None)"
  using cache_serialized
          [of "\<lparr>url = Some ''https://example.com'', text = None, engine = None,
                summary_type = None, target_language = None,
                SummarizeParams.cache = Some False\<rparr>"
              "stub_api (Inr \<lparr>status = 200, data = JNull\<rparr>)" "[]"
              "\<lparr>query = ''Explain quantum computing'', FastGPTParams.cache = None\<rparr>"]
  by auto

text \<open>
  Claim C10. A search called on the client with \<open>limit = 0\<close> issues a request with
  \<open>limit = 10\<close>, and so does one with any other falsy limit (\<open>NaN\<close>, or none); no
  call of \<open>search\<close> issues a request with \<open>limit = 0\<close>.
\<close>

theorem search_falsy_limit:
  "(limit p = Some (Num (Finite 0)) \<or> limit p = Some NaN \<or> limit p = None \<longrightarrow>
      snd (search api p s) =
        s @ [Get ''/search'' [(''q'', Some (QStr (SearchParams.q p))),
                              (''limit'', Some (QNum (Num (Finite 10))))]]) \<and>
   (\<forall>x. snd (search api p s) \<noteq>
        s @ [Get ''/search'' [(''q'', x), (''limit'', Some (QNum (Num (Finite 0))))]])"
  by (auto simp: search_request or_number_cases split: number.splits option.splits)

text \<open>
A search with \<open>limit = 0\<close>, after an earlier request.
\<close>

theorem search_falsy_limit_witness:
  "snd (search (stub_api (Inr \<lparr>status = 200, data = JNull\<rparr>))
          \<lparr>SearchParams.q = ''x'', limit = Some (Num (Finite 0))\<rparr> [Post ''/fastgpt'' []]) =
     [Post ''/fastgpt'' [],
      Get ''/search'' [(''q'', Some (QStr ''x'')), (''limit'', Some (QNum (Num (Finite 10))))]]"
  using search_falsy_limit
          [of "\<lparr>SearchParams.q = ''x'', limit = Some (Num (Finite 0))\<rparr>"
              "stub_api (Inr \<lparr>status = 200, data = JNull\<rparr>)" "[Post ''/fastgpt'' []]"]
  by simp

end
